theory Spec2Isabelle
  imports Main "HOL-Library.AList" "HOL-Library.Word"
begin

section \<open>Values of the host language\<close>

text \<open>
  The gateway is JavaScript. Three features of the language decide what the handler
  does and are written out here: truthiness (\<open>!x\<close>), property lookup on an object
  literal (own properties first, then \<open>Object.prototype\<close>), and
  \<open>String.prototype.split\<close> with a string separator.
\<close>

type_synonym byte = "8 word"

text \<open>
  The result of a property lookup on the route table: \<open>undefined\<close>, a string, or some
  other object or function (named by the property it was read from).
\<close>

datatype jsval = Undefined | Str string | Obj string

fun truthy :: "jsval \<Rightarrow> bool" where
  "truthy Undefined = False"
| "truthy (Str s) = (s \<noteq> [])"
| "truthy (Obj n) = True"

text \<open>\<open>s.startsWith(p)\<close>.\<close>

definition startsWith :: "string \<Rightarrow> string \<Rightarrow> bool" where
  "startsWith s p = (take (length p) s = p)"

text \<open>
  \<open>s.split(sep)\<close>: the pieces of \<open>s\<close> between the occurrences of \<open>sep\<close>, found from
  left to right without overlap; \<open>splitFrom\<close> carries the piece read so far. An empty
  separator splits into single characters.
\<close>

fun splitFrom :: "string \<Rightarrow> string \<Rightarrow> string \<Rightarrow> string list" where
  "splitFrom sep cur [] = [cur]"
| "splitFrom sep cur (c # cs) =
     (if sep \<noteq> [] \<and> startsWith (c # cs) sep
      then cur # splitFrom sep [] (drop (length sep) (c # cs))
      else splitFrom sep (cur @ [c]) cs)"

definition split :: "string \<Rightarrow> string \<Rightarrow> string list" where
  "split s sep = (if sep = [] then map (\<lambda>c. [c]) s else splitFrom sep [] s)"

text \<open>\<open>xs[i]\<close> on an array: \<open>undefined\<close> (here \<open>None\<close>) out of range.\<close>

definition index :: "'a list \<Rightarrow> nat \<Rightarrow> 'a option" where
  "index xs i = (if i < length xs then Some (xs ! i) else None)"

text \<open>Decimal text of a number, as string concatenation produces it.\<close>

definition digit :: "nat \<Rightarrow> char" where
  "digit d = ''0123456789'' ! d"

fun String_nat :: "nat \<Rightarrow> string" where
  "String_nat n = (if n < 10 then [digit n] else String_nat (n div 10) @ [digit (n mod 10)])"

declare String_nat.simps [simp del]

definition String_int :: "int \<Rightarrow> string" where
  "String_int i = (if i < 0 then ''-'' @ String_nat (nat (- i)) else String_nat (nat i))"

text \<open>\<open>s.toLowerCase()\<close> on the letters A to Z, and the characters \<open>\s\<close> matches in a header value.\<close>

definition toLowerCase :: "string \<Rightarrow> string" where
  "toLowerCase s =
     map (\<lambda>c. case map_of (zip ''ABCDEFGHIJKLMNOPQRSTUVWXYZ'' ''abcdefghijklmnopqrstuvwxyz'') c of
                 Some l \<Rightarrow> l
               | None \<Rightarrow> c) s"

definition whitespace :: "char \<Rightarrow> bool" where
  "whitespace c = (c \<in> set [CHR '' '', CHR 0x09, CHR 0x0A, CHR 0x0B, CHR 0x0C, CHR 0x0D, CHR 0xA0])"

section \<open>Data model\<close>

text \<open>
  A value held by the request body: a string, a number, an array or an object. Of the
  numbers the integers are represented; \<open>null\<close> and the booleans, which only a JSON
  body can hold, are not.
\<close>

datatype json =
  Text string
| Number int
| Array "json list"
| Object "(string \<times> json) list"

text \<open>
  The file multer leaves in \<open>req.file\<close>; the request as the handler reads it
  (\<open>req.headers.authorization\<close>, \<open>req.params.service\<close>, \<open>req.body\<close>, \<open>req.file\<close> as \<open>req_file\<close>).
  The body is the list of its own entries in \<open>Object.entries\<close> order.
\<close>

record upload =
  buffer :: "byte list"
  originalname :: string

record request =
  authorization :: "string option"
  service :: string
  body :: "(string \<times> json) list"
  req_file :: "upload option"

text \<open>
  The snapshot returned by \<open>db.collection("users").doc(uid).get()\<close>: \<open>exists\<close> and the
  value of \<open>data()?.api?.key\<close>, a string (\<open>None\<close> for \<open>undefined\<close>; the empty string
  is falsy, like \<open>undefined\<close>).
\<close>

record userDoc =
  exists :: bool
  api_key :: "string option"

text \<open>
  A \<open>FormData\<close> object is the list of the parts appended to it: a file part (field
  name, bytes, filename) or a field part (field name, value as appended). What is handed
  to \<open>axios.post\<close> as data is either the body object (JSON) or such a form.
\<close>

datatype part =
  FilePart string "byte list" string
| FieldPart string json

datatype outbound =
  JsonData "(string \<times> json) list"
| FormData "part list"

type_synonym headers = "(string \<times> string) list"

text \<open>
  A downstream HTTP response as the client presents it with \<open>responseType: "arraybuffer"\<close>:
  the status, the \<open>Location\<close> and \<open>Content-Type\<close> headers if present, and the bytes
  of the body as the client delivers them in \<open>response.data\<close>.
\<close>

record response =
  status :: nat
  location :: "string option"
  content_type :: "string option"
  data :: "byte list"

text \<open>
  The external collaborators. A call that can raise returns \<open>Inl\<close> the error's
  message, or \<open>Inr\<close> its result:
  \<^item> \<open>verifyIdToken\<close>: the identity provider; returns the \<open>uid\<close> of the decoded token;
  \<^item> \<open>getDoc\<close>: the document store, \<open>db.collection("users").doc(uid).get()\<close>;
  \<^item> \<open>getHeaders\<close>: the header object the multipart encoder generates for a form;
  \<^item> \<open>objectError\<close>: the message of the \<open>TypeError\<close> the encoder ends with when it is
    given an object as a field value;
  \<^item> \<open>transport\<close>: the HTTP exchange with the downstream service; \<open>Inl\<close> when no
    response is obtained (connection refused, timeout, a target that is no URL);
  \<^item> \<open>redirect\<close>: for a response that redirects, what the client ends with when it
    follows the redirection: the final response of the chain, or \<open>Inl\<close> when an
    exchange of the chain fails or the chain is longer than the client allows;
  \<^item> \<open>charsets_lookup\<close>: the default charset the web framework's media-type table
    (\<open>mime.charsets.lookup\<close>) gives for a media type, if any.
\<close>

record env =
  verifyIdToken :: "string option \<Rightarrow> string + string"
  getDoc :: "string \<Rightarrow> string + userDoc"
  getHeaders :: "part list \<Rightarrow> headers"
  objectError :: "json \<Rightarrow> string"
  transport :: "jsval \<Rightarrow> outbound \<Rightarrow> headers \<Rightarrow> string + response"
  redirect :: "jsval \<Rightarrow> outbound \<Rightarrow> headers \<Rightarrow> response \<Rightarrow> string + response"
  charsets_lookup :: "string \<Rightarrow> string option"

text \<open>The calls a request makes to the outside, in order.\<close>

datatype event =
  VerifyIdToken "string option"
| GetDoc string
| AxiosPost jsval outbound headers

text \<open>
  What the handler sends back: \<open>res.status(n).json(obj)\<close>, or the response emitted by
  \<open>res.set("Content-Type", ct); res.send(Buffer.from(bytes))\<close>, given by its
  \<open>Content-Type\<close> header and its body, with the status left at its default 200.
\<close>

datatype reply =
  Json nat "(string \<times> string) list"
| Relay string "byte list"

fun statusCode :: "reply \<Rightarrow> nat" where
  "statusCode (Json n obj) = n"
| "statusCode (Relay ct bytes) = 200"

section \<open>The identity resolver\<close>

text \<open>
  \<open>getUserApiKey\<close> (the same text in both source files). The result is the trace of
  external calls together with the error message thrown or the key returned.
\<close>

definition getUserApiKey :: "env \<Rightarrow> request \<Rightarrow> event list \<times> (string + string)" where
  "getUserApiKey env req =
     (case authorization req of
        None \<Rightarrow> ([], Inl ''Missing or invalid Authorization header'')
      | Some authHeader \<Rightarrow>
          if \<not> startsWith authHeader ''Bearer ''
          then ([], Inl ''Missing or invalid Authorization header'')
          else
            let idToken = index (split authHeader ''Bearer '') 1 in
            (case verifyIdToken env idToken of
               Inl msg \<Rightarrow> ([VerifyIdToken idToken], Inl msg)
             | Inr uid \<Rightarrow>
                 (case getDoc env uid of
                    Inl msg \<Rightarrow> ([VerifyIdToken idToken, GetDoc uid], Inl msg)
                  | Inr userDoc \<Rightarrow>
                      ([VerifyIdToken idToken, GetDoc uid],
                       if \<not> exists userDoc then Inl ''User not found in Firestore''
                       else
                         (case api_key userDoc of
                            None \<Rightarrow> Inl ''User API key not found''
                          | Some apiKey \<Rightarrow>
                              if apiKey = [] then Inl ''User API key not found''
                              else Inr apiKey)))))"

section \<open>The route table\<close>

text \<open>
  \<open>serviceMap\<close> of \<open>src/index.js\<close> and the shorter one of the second source file, as
  the object literals list their own properties.
\<close>

definition serviceMap :: "(string \<times> string) list" where
  "serviceMap =
     [(''vectors'', ''https://endless-vectors-gxda.onrender.com/convert''),
      (''images'', ''https://endless-images-second-life.onrender.com/convert''),
      (''contact'', ''https://endless-bureaucracy.onrender.com/contact''),
      (''profilepicture'', ''https://endless-bureaucracy.onrender.com/upload-profile-pic''),
      (''profilename'', ''https://endless-bureaucracy.onrender.com/update-profile-name''),
      (''codedetect'', ''https://endless-code-tools-api.onrender.com/detect''),
      (''codecompact'', ''https://endless-code-tools-api.onrender.com/compact''),
      (''codeuncompact'', ''https://endless-code-tools-api.onrender.com/uncompact''),
      (''codeformat'', ''https://endless-code-tools-api.onrender.com/format'')]"

definition serviceMap_part_000 :: "(string \<times> string) list" where
  "serviceMap_part_000 =
     [(''vectors'', ''https://endless-vectors-gxda.onrender.com/convert''),
      (''images'', ''https://endless-images-second-life.onrender.com/convert''),
      (''contact'', ''https://endless-bureaucracy.onrender.com/contact''),
      (''profilepicture'', ''https://endless-bureaucracy.onrender.com/upload-profile-pic''),
      (''profilename'', ''https://endless-bureaucracy.onrender.com/update-profile-name'')]"

text \<open>
  An object literal inherits from \<open>Object.prototype\<close>, and \<open>obj[name]\<close> reads an
  inherited property when \<open>obj\<close> has no own property of that name. These are the
  names \<open>Object.prototype\<close> defines; each holds a function, or for \<open>__proto__\<close> the
  prototype object itself.
\<close>

definition Object_prototype :: "string list" where
  "Object_prototype =
     [''constructor'', ''hasOwnProperty'', ''isPrototypeOf'', ''propertyIsEnumerable'',
      ''toLocaleString'', ''toString'', ''valueOf'', ''__proto__'',
      ''__defineGetter__'', ''__defineSetter__'', ''__lookupGetter__'', ''__lookupSetter__'']"

text \<open>\<open>obj[name]\<close> for an object literal \<open>obj\<close> with string-valued own properties.\<close>

definition property :: "(string \<times> string) list \<Rightarrow> string \<Rightarrow> jsval" where
  "property obj name =
     (case map_of obj name of
        Some v \<Rightarrow> Str v
      | None \<Rightarrow> if name \<in> set Object_prototype then Obj name else Undefined)"

section \<open>The outbound call\<close>

text \<open>
  \<open>axios.post(url, data, config)\<close>. The source passes only \<open>headers\<close> and
  \<open>responseType\<close> in \<open>config\<close>, so the client's defaults apply to the rest:
  \<^item> redirections are followed: a response with a status from 300 to 399 that carries
    a \<open>Location\<close> header is not returned; the client goes on to the new location and
    ends with the last response of the chain;
  \<^item> the response it ends with is settled by \<open>validateStatus\<close>, which accepts the
    statuses from 200 to 299: any other status (but a missing one, read as 0) rejects
    the promise with the message \<open>Request failed with status code\<close> followed by the
    status.
  The promise is also rejected when an exchange fails.
\<close>

definition validateStatus :: "nat \<Rightarrow> bool" where
  "validateStatus s = (200 \<le> s \<and> s < 300)"

definition settle :: "response \<Rightarrow> string + response" where
  "settle r =
     (if status r = 0 \<or> validateStatus (status r) then Inr r
      else Inl (''Request failed with status code '' @ String_nat (status r)))"

definition redirects :: "response \<Rightarrow> bool" where
  "redirects r =
     (300 \<le> status r \<and> status r < 400 \<and> location r \<noteq> None \<and> location r \<noteq> Some [])"

definition axios_post ::
  "env \<Rightarrow> jsval \<Rightarrow> outbound \<Rightarrow> headers \<Rightarrow> event list \<times> (string + response)" where
  "axios_post env url d hs =
     ([AxiosPost url d hs],
      case transport env url d hs of
        Inl msg \<Rightarrow> Inl msg
      | Inr r \<Rightarrow>
          if redirects r
          then (case redirect env url d hs r of
                  Inl msg \<Rightarrow> Inl msg
                | Inr final \<Rightarrow> settle final)
          else settle r)"

definition sendJsonRequest ::
  "env \<Rightarrow> jsval \<Rightarrow> (string \<times> json) list \<Rightarrow> string \<Rightarrow> event list \<times> (string + response)" where
  "sendJsonRequest env targetUrl b apiKey =
     axios_post env targetUrl (JsonData b)
       [(''Content-Type'', ''application/json''), (''x-api-key'', apiKey)]"

text \<open>
  \<open>form.append(key, value)\<close> of the multipart encoder, for a value of the body: a
  number is turned into its text first; an array raises \<open>Arrays are not supported.\<close>;
  an object is taken for a stream and raises a \<open>TypeError\<close>; a string is appended.
\<close>

fun coerce :: "json \<Rightarrow> json" where
  "coerce (Number n) = Text (String_int n)"
| "coerce v = v"

definition form_append :: "env \<Rightarrow> string \<Rightarrow> json \<Rightarrow> string + part" where
  "form_append env key v =
     (case coerce v of
        Array xs \<Rightarrow> Inl ''Arrays are not supported.''
      | Object kvs \<Rightarrow> Inl (objectError env (Object kvs))
      | value \<Rightarrow> Inr (FieldPart key value))"

text \<open>The values \<open>form.append\<close> takes: strings and numbers.\<close>

fun plain :: "json \<Rightarrow> bool" where
  "plain (Text s) = True"
| "plain (Number n) = True"
| "plain v = False"

text \<open>
  The loop \<open>for (const [key, value] of Object.entries(body)) form.append(key, value)\<close>
  on the form built so far: it stops at the first entry on which \<open>form.append\<close> raises.
\<close>

fun appendEntries :: "env \<Rightarrow> part list \<Rightarrow> (string \<times> json) list \<Rightarrow> string + part list" where
  "appendEntries env form [] = Inr form"
| "appendEntries env form ((key, value) # rest) =
     (case form_append env key value of
        Inl msg \<Rightarrow> Inl msg
      | Inr p \<Rightarrow> appendEntries env (form @ [p]) rest)"

text \<open>
  The form built by \<open>sendFormRequest\<close>, and inline by the handler of the second source
  file: the file under \<open>image\<close> if there is one, then every entry of the body.
\<close>

definition buildForm :: "env \<Rightarrow> upload option \<Rightarrow> (string \<times> json) list \<Rightarrow> string + part list" where
  "buildForm env f b =
     appendEntries env
       (case f of
          Some u \<Rightarrow> [FilePart ''image'' (buffer u) (originalname u)]
        | None \<Rightarrow> [])
       b"

text \<open>
  \<open>sendFormRequest\<close>: an exception of the encoder leaves the function before
  \<open>axios.post\<close> is called. The header object
  \<open>{...form.getHeaders(), "x-api-key": apiKey}\<close> is the encoder's headers with
  \<open>x-api-key\<close> replaced in place or added at the end.
\<close>

definition sendFormRequest ::
  "env \<Rightarrow> jsval \<Rightarrow> upload option \<Rightarrow> (string \<times> json) list \<Rightarrow> string
     \<Rightarrow> event list \<times> (string + response)" where
  "sendFormRequest env targetUrl f b apiKey =
     (case buildForm env f b of
        Inl msg \<Rightarrow> ([], Inl msg)
      | Inr form \<Rightarrow>
          axios_post env targetUrl (FormData form)
            (AList.update ''x-api-key'' apiKey (getHeaders env form)))"

section \<open>The response header\<close>

text \<open>
  \<open>res.set("Content-Type", val)\<close> of the web framework (Express 4): the value is
  turned into a string (\<open>undefined\<close> gives the text \<open>undefined\<close>), and when it has no
  charset parameter (the pattern \<open>;\s*charset\s*=\<close> does not occur in it) and the
  media-type table has a default charset for \<open>value.split(";")[0]\<close>, the text
  \<open>; charset=\<close> and that charset in lower case are added to it.
\<close>

definition charsetHere :: "string \<Rightarrow> bool" where
  "charsetHere s =
     (let s1 = dropWhile whitespace s in
      startsWith s1 ''charset''
      \<and> startsWith (dropWhile whitespace (drop (length ''charset'') s1)) ''='')"

fun charsetRegExp_test :: "string \<Rightarrow> bool" where
  "charsetRegExp_test [] = False"
| "charsetRegExp_test (c # cs) = ((c = CHR '';'' \<and> charsetHere cs) \<or> charsetRegExp_test cs)"

definition set_Content_Type :: "env \<Rightarrow> string option \<Rightarrow> string" where
  "set_Content_Type env val =
     (let value = (case val of None \<Rightarrow> ''undefined'' | Some s \<Rightarrow> s) in
      if charsetRegExp_test value then value
      else
        (case index (split value '';'') 0 of
           None \<Rightarrow> value
         | Some mimeType \<Rightarrow>
             (case charsets_lookup env mimeType of
                None \<Rightarrow> value
              | Some charset \<Rightarrow> value @ ''; charset='' @ toLowerCase charset)))"

section \<open>The proxy endpoint\<close>

text \<open>
  The handler of \<open>POST /api/proxy/:service\<close> in \<open>src/index.js\<close>: the trace of external
  calls and the reply. Every \<open>Inl\<close> is an exception reaching the \<open>catch\<close> block.
\<close>

definition proxy_handler :: "env \<Rightarrow> request \<Rightarrow> event list \<times> reply" where
  "proxy_handler env req =
     (case getUserApiKey env req of
        (t1, Inl msg) \<Rightarrow> (t1, Json 500 [(''error'', ''Proxy failed''), (''details'', msg)])
      | (t1, Inr apiKey) \<Rightarrow>
          let targetUrl = property serviceMap (service req) in
          if \<not> truthy targetUrl then (t1, Json 400 [(''error'', ''Unknown service'')])
          else
            (case (case req_file req of
                     Some u \<Rightarrow> sendFormRequest env targetUrl (Some u) (body req) apiKey
                   | None \<Rightarrow> sendJsonRequest env targetUrl (body req) apiKey) of
               (t2, Inl msg) \<Rightarrow>
                 (t1 @ t2, Json 500 [(''error'', ''Proxy failed''), (''details'', msg)])
             | (t2, Inr response) \<Rightarrow>
                 (t1 @ t2,
                  Relay (set_Content_Type env (content_type response)) (data response))))"


text \<open>The calls to the downstream service in a trace.\<close>

fun isAxiosPost :: "event \<Rightarrow> bool" where
  "isAxiosPost (AxiosPost url d hs) = True"
| "isAxiosPost e = False"

section \<open>A sample deployment\<close>

text \<open>
  Concrete collaborators and requests on which the theorems below are instantiated:
  three tokens (a user with a key, a user without a record, a user whose record has no
  key), an encoder with a fixed boundary, a media-type table that gives UTF-8 to the
  text types, to JSON and to JavaScript, and a downstream service that answers every
  URL with a small PNG header.
\<close>

definition sample_upload :: upload where
  "sample_upload = \<lparr>buffer = [255, 216, 255], originalname = ''cat.jpg''\<rparr>"

definition sample_response :: response where
  "sample_response =
     \<lparr>status = 200, location = None, content_type = Some ''image/png'',
      data = [137, 80, 78, 71]\<rparr>"

definition sample_env :: env where
  "sample_env =
     \<lparr>verifyIdToken =
        (\<lambda>t. if t = Some ''tok'' then Inr ''uid1''
             else if t = Some ''tok2'' then Inr ''uid2''
             else if t = Some ''tok3'' then Inr ''uid3''
             else Inl ''Decoding Firebase ID token failed''),
      getDoc =
        (\<lambda>uid. if uid = ''uid1'' then Inr \<lparr>exists = True, api_key = Some ''secret''\<rparr>
               else if uid = ''uid3'' then Inr \<lparr>exists = True, api_key = None\<rparr>
               else Inr \<lparr>exists = False, api_key = None\<rparr>),
      getHeaders = (\<lambda>form. [(''content-type'', ''multipart/form-data; boundary=x'')]),
      objectError = (\<lambda>v. ''source.on is not a function''),
      transport = (\<lambda>url d hs. case url of Str u \<Rightarrow> Inr sample_response
                                | _ \<Rightarrow> Inl ''Invalid URL''),
      redirect = (\<lambda>url d hs r. Inl ''Maximum number of redirects exceeded''),
      charsets_lookup =
        (\<lambda>mimeType. if startsWith mimeType ''text/''
                        \<or> startsWith mimeType ''application/javascript''
                        \<or> startsWith mimeType ''application/json''
                     then Some ''UTF-8'' else None)\<rparr>"

definition sample_request :: request where
  "sample_request =
     \<lparr>authorization = Some ''Bearer tok'', service = ''images'',
      body = [(''caption'', Text ''x'')], req_file = None\<rparr>"







text \<open>
  Form-mode requests: an upload with a text field and a number; one whose field
  \<open>tags\<close> was sent twice, which multer delivers as an array; one whose field
  \<open>meta[kind]\<close> multer delivers as an object.
\<close>

definition upload_request :: request where
  "upload_request =
     sample_request\<lparr>body := [(''caption'', Text ''x''), (''width'', Number 640)],
                    req_file := Some sample_upload\<rparr>"

definition repeated_field_request :: request where
  "repeated_field_request =
     sample_request\<lparr>body := [(''tags'', Array [Text ''a'', Text ''b''])],
                    req_file := Some sample_upload\<rparr>"


section \<open>Basic facts about the handler\<close>

lemma handler_auth_error:
  "getUserApiKey env req = (t, Inl msg) \<Longrightarrow>
   proxy_handler env req = (t, Json 500 [(''error'', ''Proxy failed''), (''details'', msg)])"
  by (simp add: proxy_handler_def)

lemma getUserApiKey_no_post: "filter isAxiosPost (fst (getUserApiKey env req)) = []"
  by (simp add: getUserApiKey_def Let_def split: option.split sum.split)


lemma serviceMap_nonempty: "map_of serviceMap s = Some url \<Longrightarrow> url \<noteq> []"
  by (auto simp: serviceMap_def split: if_splits)


text \<open>The encoder on a body: all values plain, or not.\<close>

lemma appendEntries_plain:
  "\<forall>(key, value) \<in> set b. plain value \<Longrightarrow>
   appendEntries env form b = Inr (form @ map (\<lambda>(key, value). FieldPart key (coerce value)) b)"
proof (induction b arbitrary: form)
  case Nil
  then show ?case by simp
next
  case (Cons e b)
  obtain key v where e: "e = (key, v)" by (cases e)
  with Cons.prems have "plain v" by simp
  then have "form_append env key v = Inr (FieldPart key (coerce v))"
    by (cases v) (simp_all add: form_append_def)
  with Cons e show ?case by simp
qed

lemma appendEntries_not_plain:
  "\<not> (\<forall>(key, value) \<in> set b. plain value) \<Longrightarrow> \<exists>msg. appendEntries env form b = Inl msg"
proof (induction b arbitrary: form)
  case Nil
  then show ?case by simp
next
  case (Cons e b)
  obtain key v where e: "e = (key, v)" by (cases e)
  show ?case
  proof (cases "plain v")
    case True
    then have a: "form_append env key v = Inr (FieldPart key (coerce v))"
      by (cases v) (simp_all add: form_append_def)
    from True Cons.prems e have "\<not> (\<forall>(key, value) \<in> set b. plain value)" by simp
    from Cons.IH [OF this, of "form @ [FieldPart key (coerce v)]"] a e show ?thesis by simp
  next
    case False
    then have "\<exists>msg. form_append env key v = Inl msg"
      by (cases v) (simp_all add: form_append_def)
    with e show ?thesis by auto
  qed
qed

lemma buildForm_plain:
  "\<forall>(key, value) \<in> set b. plain value \<Longrightarrow>
   buildForm env f b =
     Inr ((case f of Some u \<Rightarrow> [FilePart ''image'' (buffer u) (originalname u)] | None \<Rightarrow> [])
          @ map (\<lambda>(key, value). FieldPart key (coerce value)) b)"
  by (simp add: buildForm_def appendEntries_plain)

lemma buildForm_not_plain:
  "\<not> (\<forall>(key, value) \<in> set b. plain value) \<Longrightarrow> \<exists>msg. buildForm env f b = Inl msg"
  by (simp add: buildForm_def appendEntries_not_plain)

text \<open>The call to \<open>axios.post\<close> under the \<open>try\<close>: one event, and the reply by its outcome.\<close>

lemma fst_axios_post: "fst (axios_post env url d hs) = [AxiosPost url d hs]"
  by (simp add: axios_post_def)

lemma catch_relay:
  "(case axios_post env url d hs of
      (t2, Inl msg) \<Rightarrow> (t1 @ t2, J msg)
    | (t2, Inr response) \<Rightarrow> (t1 @ t2, R response)) =
   (t1 @ [AxiosPost url d hs],
    case snd (axios_post env url d hs) of Inl msg \<Rightarrow> J msg | Inr r \<Rightarrow> R r)"
proof -
  obtain t2 res where p: "axios_post env url d hs = (t2, res)"
    by (cases "axios_post env url d hs")
  with fst_axios_post [of env url d hs] have "t2 = [AxiosPost url d hs]" by simp
  with p show ?thesis by (cases res) simp_all
qed

text \<open>The handler after a successful identity resolution, by the target found.\<close>

lemma handler_unrouted:
  assumes "getUserApiKey env req = (t1, Inr apiKey)"
    and "\<not> truthy (property serviceMap (service req))"
  shows "proxy_handler env req = (t1, Json 400 [(''error'', ''Unknown service'')])"
  using assms by (simp add: proxy_handler_def)

lemma handler_json:
  assumes "getUserApiKey env req = (t1, Inr apiKey)"
    and "truthy (property serviceMap (service req))"
    and "req_file req = None"
    and "target = property serviceMap (service req)"
    and "hs = [(''Content-Type'', ''application/json''), (''x-api-key'', apiKey)]"
  shows "proxy_handler env req =
           (t1 @ [AxiosPost target (JsonData (body req)) hs],
            case snd (axios_post env target (JsonData (body req)) hs) of
              Inl msg \<Rightarrow> Json 500 [(''error'', ''Proxy failed''), (''details'', msg)]
            | Inr r \<Rightarrow> Relay (set_Content_Type env (content_type r)) (data r))"
  using assms by (simp add: proxy_handler_def sendJsonRequest_def catch_relay Let_def)

lemma handler_form:
  assumes "getUserApiKey env req = (t1, Inr apiKey)"
    and "truthy (property serviceMap (service req))"
    and "req_file req = Some u"
    and "buildForm env (Some u) (body req) = Inr form"
    and "target = property serviceMap (service req)"
    and "hs = AList.update ''x-api-key'' apiKey (getHeaders env form)"
  shows "proxy_handler env req =
           (t1 @ [AxiosPost target (FormData form) hs],
            case snd (axios_post env target (FormData form) hs) of
              Inl msg \<Rightarrow> Json 500 [(''error'', ''Proxy failed''), (''details'', msg)]
            | Inr r \<Rightarrow> Relay (set_Content_Type env (content_type r)) (data r))"
  using assms by (simp add: proxy_handler_def sendFormRequest_def catch_relay Let_def)

lemma handler_form_error:
  assumes "getUserApiKey env req = (t1, Inr apiKey)"
    and "truthy (property serviceMap (service req))"
    and "req_file req = Some u"
    and "buildForm env (Some u) (body req) = Inl msg"
  shows "proxy_handler env req =
           (t1, Json 500 [(''error'', ''Proxy failed''), (''details'', msg)])"
  using assms by (simp add: proxy_handler_def sendFormRequest_def)


section \<open>The claims\<close>

text \<open>
  C6. A request whose \<open>Authorization\<close> header is absent, or does not start with
  \<open>Bearer \<close>, makes the identity resolver fail with the message
  \<open>Missing or invalid Authorization header\<close>; the reply is the 500 envelope carrying
  that message, and the trace of external calls is empty: neither the identity provider
  nor the document store is contacted.
\<close>

theorem missing_header_rejected:
  assumes "authorization req = None
           \<or> (\<exists>h. authorization req = Some h \<and> \<not> startsWith h ''Bearer '')"
  shows "getUserApiKey env req = ([], Inl ''Missing or invalid Authorization header'')
         \<and> proxy_handler env req =
             ([], Json 500 [(''error'', ''Proxy failed''),
                            (''details'', ''Missing or invalid Authorization header'')])
         \<and> statusCode (snd (proxy_handler env req)) = 500"
proof -
  from assms
  have g: "getUserApiKey env req = ([], Inl ''Missing or invalid Authorization header'')"
    by (auto simp: getUserApiKey_def)
  from handler_auth_error [OF g] g show ?thesis by simp
qed

theorem missing_header_rejected_witness:
  "proxy_handler sample_env (sample_request\<lparr>authorization := None\<rparr>) =
     ([], Json 500 [(''error'', ''Proxy failed''),
                    (''details'', ''Missing or invalid Authorization header'')])
   \<and> \<not> startsWith ''Basic dXNlcg=='' ''Bearer ''
   \<and> proxy_handler sample_env (sample_request\<lparr>authorization := Some ''Basic dXNlcg==''\<rparr>) =
     ([], Json 500 [(''error'', ''Proxy failed''),
                    (''details'', ''Missing or invalid Authorization header'')])"
proof -
  have a: "authorization (sample_request\<lparr>authorization := None\<rparr>) = None
           \<or> (\<exists>h. authorization (sample_request\<lparr>authorization := None\<rparr>) = Some h
                  \<and> \<not> startsWith h ''Bearer '')"
    by simp
  have n: "\<not> startsWith ''Basic dXNlcg=='' ''Bearer ''"
    by (simp add: startsWith_def)
  then have b:
    "authorization (sample_request\<lparr>authorization := Some ''Basic dXNlcg==''\<rparr>) = None
     \<or> (\<exists>h. authorization (sample_request\<lparr>authorization := Some ''Basic dXNlcg==''\<rparr>) = Some h
            \<and> \<not> startsWith h ''Bearer '')"
    by simp
  from missing_header_rejected [OF a, of sample_env]
    missing_header_rejected [OF b, of sample_env] n
  show ?thesis by simp
qed

text \<open>The resolver once the token has verified and the document store has answered.\<close>

lemma getUserApiKey_verified:
  assumes "authorization req = Some h" and "startsWith h ''Bearer ''"
    and "verifyIdToken env (index (split h ''Bearer '') 1) = Inr uid"
    and "getDoc env uid = Inr doc"
  shows "getUserApiKey env req =
           ([VerifyIdToken (index (split h ''Bearer '') 1), GetDoc uid],
            if \<not> exists doc then Inl ''User not found in Firestore''
            else (case api_key doc of
                    None \<Rightarrow> Inl ''User API key not found''
                  | Some apiKey \<Rightarrow>
                      if apiKey = [] then Inl ''User API key not found'' else Inr apiKey))"
  using assms by (simp add: getUserApiKey_def Let_def)

text \<open>
  C9. When the bearer token verifies and the document store answers: if the user record
  does not exist the resolver throws \<open>User not found in Firestore\<close>, and if it exists
  but \<open>api.key\<close> is absent it throws \<open>User API key not found\<close>. In both cases the
  reply is the 500 envelope with that message and the trace holds the token verification
  and the document read only, so no downstream call was made.
\<close>

theorem missing_record_or_key_rejected:
  assumes "authorization req = Some h" and "startsWith h ''Bearer ''"
    and "verifyIdToken env (index (split h ''Bearer '') 1) = Inr uid"
    and "getDoc env uid = Inr doc"
  shows "(\<not> exists doc \<longrightarrow>
            snd (getUserApiKey env req) = Inl ''User not found in Firestore''
            \<and> proxy_handler env req =
                ([VerifyIdToken (index (split h ''Bearer '') 1), GetDoc uid],
                 Json 500 [(''error'', ''Proxy failed''),
                           (''details'', ''User not found in Firestore'')]))
         \<and> (exists doc \<and> api_key doc = None \<longrightarrow>
            snd (getUserApiKey env req) = Inl ''User API key not found''
            \<and> proxy_handler env req =
                ([VerifyIdToken (index (split h ''Bearer '') 1), GetDoc uid],
                 Json 500 [(''error'', ''Proxy failed''),
                           (''details'', ''User API key not found'')]))"
  using getUserApiKey_verified [OF assms]
  by (auto simp: handler_auth_error)

theorem missing_record_or_key_rejected_witness:
  "proxy_handler sample_env (sample_request\<lparr>authorization := Some ''Bearer tok2''\<rparr>) =
     ([VerifyIdToken (Some ''tok2''), GetDoc ''uid2''],
      Json 500 [(''error'', ''Proxy failed''), (''details'', ''User not found in Firestore'')])
   \<and> proxy_handler sample_env (sample_request\<lparr>authorization := Some ''Bearer tok3''\<rparr>) =
     ([VerifyIdToken (Some ''tok3''), GetDoc ''uid3''],
      Json 500 [(''error'', ''Proxy failed''), (''details'', ''User API key not found'')])"
proof -
  have s2: "index (split ''Bearer tok2'' ''Bearer '') 1 = Some ''tok2''"
    and s3: "index (split ''Bearer tok3'' ''Bearer '') 1 = Some ''tok3''"
    by (simp_all add: split_def startsWith_def index_def)
  have a2: "authorization (sample_request\<lparr>authorization := Some ''Bearer tok2''\<rparr>)
              = Some ''Bearer tok2''"
    and a3: "authorization (sample_request\<lparr>authorization := Some ''Bearer tok3''\<rparr>)
              = Some ''Bearer tok3''"
    by simp_all
  have p2: "startsWith ''Bearer tok2'' ''Bearer ''" and p3: "startsWith ''Bearer tok3'' ''Bearer ''"
    by (simp_all add: startsWith_def)
  have v2: "verifyIdToken sample_env (index (split ''Bearer tok2'' ''Bearer '') 1) = Inr ''uid2''"
    and v3: "verifyIdToken sample_env (index (split ''Bearer tok3'' ''Bearer '') 1) = Inr ''uid3''"
    using s2 s3 by (simp_all add: sample_env_def)
  have d2: "getDoc sample_env ''uid2'' = Inr \<lparr>exists = False, api_key = None\<rparr>"
    and d3: "getDoc sample_env ''uid3'' = Inr \<lparr>exists = True, api_key = None\<rparr>"
    by (simp_all add: sample_env_def)
  from missing_record_or_key_rejected [OF a2 p2 v2 d2]
    missing_record_or_key_rejected [OF a3 p3 v3 d3]
  show ?thesis using s2 s3 by simp
qed

text \<open>Truthy targets: every URL of the route table is a non-empty string.\<close>

lemma property_serviceMap:
  "map_of serviceMap s = Some url \<Longrightarrow>
   property serviceMap s = Str url \<and> truthy (property serviceMap s)"
  by (simp add: property_def serviceMap_nonempty)

lemma map_of_update_api_key: "map_of (AList.update ''x-api-key'' k hs) ''x-api-key'' = Some k"
  by (simp add: AList.update_conv')

text \<open>
  C5. With a valid token, an existing user record and a present \<open>api.key\<close> holding
  \<open>k\<close>: every call to the downstream service that the request makes carries
  \<open>x-api-key\<close> equal to \<open>k\<close>, and a JSON payload it carries is the inbound body. A
  non-empty \<open>k\<close> is returned by the resolver as it is stored, and a JSON-mode
  request to a mapped service then makes exactly that one call.
\<close>

theorem stored_key_forwarded:
  assumes "authorization req = Some h" and "startsWith h ''Bearer ''"
    and "verifyIdToken env (index (split h ''Bearer '') 1) = Inr uid"
    and "getDoc env uid = Inr doc"
    and "exists doc" and "api_key doc = Some k"
  shows "(\<forall>url d hs. AxiosPost url d hs \<in> set (fst (proxy_handler env req)) \<longrightarrow>
            map_of hs ''x-api-key'' = Some k \<and> (\<forall>b. d = JsonData b \<longrightarrow> b = body req))
         \<and> (k \<noteq> [] \<longrightarrow> snd (getUserApiKey env req) = Inr k)
         \<and> (k \<noteq> [] \<and> map_of serviceMap (service req) = Some target \<and> req_file req = None \<longrightarrow>
              fst (proxy_handler env req) =
                [VerifyIdToken (index (split h ''Bearer '') 1), GetDoc uid,
                 AxiosPost (Str target) (JsonData (body req))
                   [(''Content-Type'', ''application/json''), (''x-api-key'', k)]])"
proof (cases "k = []")
  case True
  with getUserApiKey_verified [OF assms(1-4)] assms(5,6)
  have "getUserApiKey env req =
          ([VerifyIdToken (index (split h ''Bearer '') 1), GetDoc uid],
           Inl ''User API key not found'')"
    by simp
  from handler_auth_error [OF this] True show ?thesis by simp
next
  case False
  with getUserApiKey_verified [OF assms(1-4)] assms(5,6)
  have g: "getUserApiKey env req =
             ([VerifyIdToken (index (split h ''Bearer '') 1), GetDoc uid], Inr k)"
    by simp
  show ?thesis
  proof (cases "truthy (property serviceMap (service req))")
    case True
    show ?thesis
    proof (cases "req_file req")
      case None
      from handler_json [OF g True None refl refl] g None
      show ?thesis by (auto simp: property_serviceMap)
    next
      case (Some u)
      show ?thesis
      proof (cases "buildForm env (Some u) (body req)")
        case (Inl msg)
        from handler_form_error [OF g True Some Inl] g Some
        show ?thesis by simp
      next
        case (Inr form)
        from handler_form [OF g True Some Inr refl refl] g Some
        show ?thesis by (auto simp: map_of_update_api_key)
      qed
    qed
  next
    case False
    from False have "map_of serviceMap (service req) \<noteq> Some target"
      using property_serviceMap [of "service req" target] by blast
    with handler_unrouted [OF g False] g show ?thesis
      by simp
  qed
qed

theorem stored_key_forwarded_witness:
  "fst (proxy_handler sample_env sample_request) =
     [VerifyIdToken (Some ''tok''), GetDoc ''uid1'',
      AxiosPost (Str ''https://endless-images-second-life.onrender.com/convert'')
        (JsonData [(''caption'', Text ''x'')])
        [(''Content-Type'', ''application/json''), (''x-api-key'', ''secret'')]]
   \<and> snd (getUserApiKey sample_env sample_request) = Inr ''secret''"
proof -
  have s: "index (split ''Bearer tok'' ''Bearer '') 1 = Some ''tok''"
    by (simp add: split_def startsWith_def index_def)
  have a: "authorization sample_request = Some ''Bearer tok''"
    by (simp add: sample_request_def)
  have p: "startsWith ''Bearer tok'' ''Bearer ''"
    by (simp add: startsWith_def)
  have v: "verifyIdToken sample_env (index (split ''Bearer tok'' ''Bearer '') 1) = Inr ''uid1''"
    using s by (simp add: sample_env_def)
  have d: "getDoc sample_env ''uid1'' = Inr \<lparr>exists = True, api_key = Some ''secret''\<rparr>"
    by (simp add: sample_env_def)
  have e: "exists \<lparr>exists = True, api_key = Some ''secret''\<rparr>"
    and k: "api_key \<lparr>exists = True, api_key = Some ''secret''\<rparr> = Some ''secret''"
    by simp_all
  have m: "map_of serviceMap (service sample_request)
             = Some ''https://endless-images-second-life.onrender.com/convert''"
    and f: "req_file sample_request = None" and b: "body sample_request = [(''caption'', Text ''x'')]"
    by (simp_all add: sample_request_def serviceMap_def)
  note th = stored_key_forwarded [OF a p v d e k,
      of "''https://endless-images-second-life.onrender.com/convert''"]
  from th [THEN conjunct2, THEN conjunct1]
  have r: "snd (getUserApiKey sample_env sample_request) = Inr ''secret''"
    by simp
  from th [THEN conjunct2, THEN conjunct2] m f
  have "fst (proxy_handler sample_env sample_request) =
     [VerifyIdToken (index (split ''Bearer tok'' ''Bearer '') 1), GetDoc ''uid1'',
      AxiosPost (Str ''https://endless-images-second-life.onrender.com/convert'')
        (JsonData (body sample_request))
        [(''Content-Type'', ''application/json''), (''x-api-key'', ''secret'')]]"
    by simp
  with r show ?thesis
    by (simp only: s b)
qed




text \<open>The sample requests: resolved identity, route, and what the encoder makes of the bodies.\<close>

lemma sample_resolved:
  "getUserApiKey env' (sample_request\<lparr>body := b, req_file := f\<rparr>) =
     ([VerifyIdToken (Some ''tok''), GetDoc ''uid1''], Inr ''secret'')"
  if "verifyIdToken env' = verifyIdToken sample_env" and "getDoc env' = getDoc sample_env"
  using that
  by (simp add: getUserApiKey_def sample_env_def sample_request_def split_def startsWith_def
        index_def)


lemma sample_routed:
  "map_of serviceMap ''images'' = Some ''https://endless-images-second-life.onrender.com/convert''"
  "map_of serviceMap_part_000 ''images''
     = Some ''https://endless-images-second-life.onrender.com/convert''"
  by (simp_all add: serviceMap_def serviceMap_part_000_def)

lemma sample_target:
  "property serviceMap ''images''
     = Str ''https://endless-images-second-life.onrender.com/convert''"
  "truthy (property serviceMap ''images'')"
  by (simp_all add: property_def sample_routed)





text \<open>
  C4, as the code has it. A form-mode request (a file is attached) that is
  authenticated and routed, with a body of strings and numbers, makes one outbound call
  whose multipart form is the part \<open>image\<close> with the file's bytes and original
  filename, followed by one field part per entry of the body, in the body's order, each
  carrying the entry's key and its value as text (a number as its decimal text). Its
  headers are the ones the encoder generates for that form with \<open>x-api-key\<close> set to
  the secret: \<open>x-api-key\<close> reads as the secret and every other header reads as the
  encoder gave it. When the body holds an array or an object, the encoder raises: no
  outbound call is made and the reply is the 500 envelope.
\<close>

theorem form_request_parts:
  assumes "getUserApiKey env req = (t1, Inr apiKey)"
    and "map_of serviceMap (service req) = Some url"
    and "req_file req = Some u"
    and "form = FilePart ''image'' (buffer u) (originalname u)
                  # map (\<lambda>(key, value). FieldPart key (coerce value)) (body req)"
    and "hs = AList.update ''x-api-key'' apiKey (getHeaders env form)"
  shows "((\<forall>(key, value) \<in> set (body req). plain value) \<longrightarrow>
            fst (proxy_handler env req) = t1 @ [AxiosPost (Str url) (FormData form) hs]
            \<and> sendFormRequest env (Str url) (Some u) (body req) apiKey
                = axios_post env (Str url) (FormData form) hs)
         \<and> map_of hs ''x-api-key'' = Some apiKey
         \<and> (\<forall>name. name \<noteq> ''x-api-key'' \<longrightarrow> map_of hs name = map_of (getHeaders env form) name)
         \<and> (\<not> (\<forall>(key, value) \<in> set (body req). plain value) \<longrightarrow>
              fst (proxy_handler env req) = t1
              \<and> (\<exists>msg. snd (proxy_handler env req)
                         = Json 500 [(''error'', ''Proxy failed''), (''details'', msg)]))"
proof -
  from property_serviceMap [OF assms(2)]
  have p: "property serviceMap (service req) = Str url"
    and t: "truthy (property serviceMap (service req))"
    by blast+
  have a: "fst (proxy_handler env req) = t1 @ [AxiosPost (Str url) (FormData form) hs]
           \<and> sendFormRequest env (Str url) (Some u) (body req) apiKey
               = axios_post env (Str url) (FormData form) hs"
    if s: "\<forall>(key, value) \<in> set (body req). plain value"
  proof -
    have b: "buildForm env (Some u) (body req) = Inr form"
      using buildForm_plain [OF s, of env "Some u"] assms(4) by simp
    from handler_form [OF assms(1) t assms(3) b refl refl] p assms(5)
    have "fst (proxy_handler env req) = t1 @ [AxiosPost (Str url) (FormData form) hs]"
      by simp
    moreover have "sendFormRequest env (Str url) (Some u) (body req) apiKey
                     = axios_post env (Str url) (FormData form) hs"
      using b assms(5) by (simp add: sendFormRequest_def)
    ultimately show ?thesis by (rule conjI)
  qed
  have c: "fst (proxy_handler env req) = t1
           \<and> (\<exists>msg. snd (proxy_handler env req)
                      = Json 500 [(''error'', ''Proxy failed''), (''details'', msg)])"
    if s: "\<not> (\<forall>(key, value) \<in> set (body req). plain value)"
  proof -
    from buildForm_not_plain [OF s, of env "Some u"]
    obtain msg where b: "buildForm env (Some u) (body req) = Inl msg" by blast
    from handler_form_error [OF assms(1) t assms(3) b] show ?thesis by simp
  qed
  have k: "map_of hs ''x-api-key'' = Some apiKey"
    using assms(5) by (simp add: map_of_update_api_key)
  have o: "\<forall>name. name \<noteq> ''x-api-key'' \<longrightarrow> map_of hs name = map_of (getHeaders env form) name"
    using assms(5) by (simp add: AList.update_conv')
  from a c k o show ?thesis by simp
qed

theorem form_request_parts_witness:
  "fst (proxy_handler sample_env upload_request) =
     [VerifyIdToken (Some ''tok''), GetDoc ''uid1'',
      AxiosPost (Str ''https://endless-images-second-life.onrender.com/convert'')
        (FormData [FilePart ''image'' [255, 216, 255] ''cat.jpg'',
                   FieldPart ''caption'' (Text ''x''), FieldPart ''width'' (Text ''640'')])
        [(''content-type'', ''multipart/form-data; boundary=x''), (''x-api-key'', ''secret'')]]
   \<and> fst (proxy_handler sample_env repeated_field_request) =
       [VerifyIdToken (Some ''tok''), GetDoc ''uid1'']
   \<and> statusCode (snd (proxy_handler sample_env repeated_field_request)) = 500"
proof -
  have n: "String_int 640 = ''640''"
    by (simp add: String_int_def String_nat.simps digit_def)
  have gu: "getUserApiKey sample_env upload_request =
              ([VerifyIdToken (Some ''tok''), GetDoc ''uid1''], Inr ''secret'')"
    and gr: "getUserApiKey sample_env repeated_field_request =
              ([VerifyIdToken (Some ''tok''), GetDoc ''uid1''], Inr ''secret'')"
    unfolding upload_request_def repeated_field_request_def
    by (rule sample_resolved [OF refl refl])+
  have mu: "map_of serviceMap (service upload_request)
              = Some ''https://endless-images-second-life.onrender.com/convert''"
    and fu: "req_file upload_request = Some sample_upload"
    and pu: "\<forall>(key, value) \<in> set (body upload_request). plain value"
    by (simp_all add: upload_request_def sample_request_def sample_routed)
  have mr: "map_of serviceMap (service repeated_field_request)
              = Some ''https://endless-images-second-life.onrender.com/convert''"
    and fr: "req_file repeated_field_request = Some sample_upload"
    and pr: "\<not> (\<forall>(key, value) \<in> set (body repeated_field_request). plain value)"
    by (simp_all add: repeated_field_request_def sample_request_def sample_routed)
  from form_request_parts [OF gu mu fu refl refl, THEN conjunct1] pu
  have "fst (proxy_handler sample_env upload_request) =
     [VerifyIdToken (Some ''tok''), GetDoc ''uid1'',
      AxiosPost (Str ''https://endless-images-second-life.onrender.com/convert'')
        (FormData [FilePart ''image'' [255, 216, 255] ''cat.jpg'',
                   FieldPart ''caption'' (Text ''x''), FieldPart ''width'' (Text ''640'')])
        [(''content-type'', ''multipart/form-data; boundary=x''), (''x-api-key'', ''secret'')]]"
    using n by (simp add: upload_request_def sample_request_def sample_upload_def sample_env_def)
  moreover
  from form_request_parts [OF gr mr fr refl refl] pr
  have "fst (proxy_handler sample_env repeated_field_request) =
          [VerifyIdToken (Some ''tok''), GetDoc ''uid1'']
        \<and> statusCode (snd (proxy_handler sample_env repeated_field_request)) = 500"
    by auto
  ultimately show ?thesis by blast
qed

text \<open>
  C4 as stated fails: the request has a file attached and its field \<open>tags\<close> was sent
  twice, so the body holds an array; it is authenticated and routed, the encoder raises
  \<open>Arrays are not supported.\<close>, and there is no outbound multipart body: the trace
  holds no call and the reply is the 500 envelope.
\<close>

theorem form_request_parts_counterexample:
  "req_file repeated_field_request = Some sample_upload
   \<and> body repeated_field_request = [(''tags'', Array [Text ''a'', Text ''b''])]
   \<and> proxy_handler sample_env repeated_field_request =
     ([VerifyIdToken (Some ''tok''), GetDoc ''uid1''],
      Json 500 [(''error'', ''Proxy failed''), (''details'', ''Arrays are not supported.'')])"
proof -
  have gr: "getUserApiKey sample_env repeated_field_request =
              ([VerifyIdToken (Some ''tok''), GetDoc ''uid1''], Inr ''secret'')"
    unfolding repeated_field_request_def by (rule sample_resolved [OF refl refl])
  have t: "truthy (property serviceMap (service repeated_field_request))"
    and f: "req_file repeated_field_request = Some sample_upload"
    and b: "body repeated_field_request = [(''tags'', Array [Text ''a'', Text ''b''])]"
    by (simp_all add: repeated_field_request_def sample_request_def sample_target)
  have e: "buildForm sample_env (Some sample_upload) (body repeated_field_request)
             = Inl ''Arrays are not supported.''"
    by (simp add: b buildForm_def form_append_def)
  from handler_form_error [OF gr t f e] f b show ?thesis by simp
qed

















lemma property_unknown:
  "map_of serviceMap s = None \<Longrightarrow> s \<notin> set Object_prototype \<Longrightarrow>
   property serviceMap s = Undefined"
  by (simp add: property_def)

text \<open>
  C7, as the code has it. Identity is resolved first, so a request for a service that
  is not in the route table is answered 400 \<open>Unknown service\<close> only when the resolver
  has returned a key; when the resolver fails the reply is the 500 envelope with the
  resolver's message. In both cases the trace is the resolver's: no downstream call is
  made. The statement is for service names that are not property names of
  \<open>Object.prototype\<close> either.
\<close>

theorem unknown_service_rejected:
  assumes "map_of serviceMap (service req) = None"
    and "service req \<notin> set Object_prototype"
  shows "snd (proxy_handler env req) =
           (case snd (getUserApiKey env req) of
              Inl msg \<Rightarrow> Json 500 [(''error'', ''Proxy failed''), (''details'', msg)]
            | Inr apiKey \<Rightarrow> Json 400 [(''error'', ''Unknown service'')])
         \<and> fst (proxy_handler env req) = fst (getUserApiKey env req)
         \<and> filter isAxiosPost (fst (proxy_handler env req)) = []"
proof -
  obtain t1 res where g: "getUserApiKey env req = (t1, res)"
    by (cases "getUserApiKey env req")
  have np: "filter isAxiosPost t1 = []"
    using getUserApiKey_no_post [of env req] g by simp
  show ?thesis
  proof (cases res)
    case (Inl msg)
    with handler_auth_error [of env req t1 msg] g np show ?thesis by simp
  next
    case (Inr apiKey)
    have "\<not> truthy (property serviceMap (service req))"
      using property_unknown [OF assms] by simp
    with handler_unrouted [of env req t1 apiKey] g Inr np show ?thesis by simp
  qed
qed

theorem unknown_service_rejected_witness:
  "proxy_handler sample_env (sample_request\<lparr>service := ''nope''\<rparr>) =
     ([VerifyIdToken (Some ''tok''), GetDoc ''uid1''], Json 400 [(''error'', ''Unknown service'')])"
proof -
  have m: "map_of serviceMap (service (sample_request\<lparr>service := ''nope''\<rparr>)) = None"
    by (simp add: serviceMap_def)
  have o: "service (sample_request\<lparr>service := ''nope''\<rparr>) \<notin> set Object_prototype"
    by (simp add: Object_prototype_def)
  have g: "getUserApiKey sample_env (sample_request\<lparr>service := ''nope''\<rparr>) =
     ([VerifyIdToken (Some ''tok''), GetDoc ''uid1''], Inr ''secret'')"
    by (simp add: getUserApiKey_def sample_env_def sample_request_def split_def startsWith_def
          index_def)
  from unknown_service_rejected [OF m o, of sample_env] g
  show ?thesis by (simp add: prod_eq_iff)
qed

text \<open>
  C7 as stated fails: the service \<open>nope\<close> is not in the route table, the request has
  no \<open>Authorization\<close> header, and the reply is the 500 envelope, not 400
  \<open>Unknown service\<close>.
\<close>

theorem unknown_service_rejected_counterexample:
  "map_of serviceMap ''nope'' = None
   \<and> proxy_handler sample_env
       \<lparr>authorization = None, service = ''nope'', body = [], req_file = None\<rparr> =
     ([], Json 500 [(''error'', ''Proxy failed''),
                    (''details'', ''Missing or invalid Authorization header'')])"
  by (simp add: serviceMap_def proxy_handler_def getUserApiKey_def)

text \<open>The three shapes of reply the handler gives.\<close>

lemma handler_replies:
  "snd (proxy_handler env req) = Json 400 [(''error'', ''Unknown service'')]
   \<or> (\<exists>msg. snd (proxy_handler env req)
               = Json 500 [(''error'', ''Proxy failed''), (''details'', msg)])
   \<or> (\<exists>ct bytes. snd (proxy_handler env req) = Relay ct bytes)"
proof -
  obtain t1 res where g: "getUserApiKey env req = (t1, res)"
    by (cases "getUserApiKey env req")
  show ?thesis
  proof (cases res)
    case (Inl msg)
    with handler_auth_error [of env req t1 msg] g show ?thesis by simp
  next
    case (Inr apiKey)
    note g' = g [unfolded Inr]
    show ?thesis
    proof (cases "truthy (property serviceMap (service req))")
      case False
      with handler_unrouted [of env req t1 apiKey] g' show ?thesis by simp
    next
      case True
      show ?thesis
      proof (cases "req_file req")
        case None
        from handler_json [OF g' True None refl refl]
        show ?thesis by (simp split: sum.split)
      next
        case (Some u)
        show ?thesis
        proof (cases "buildForm env (Some u) (body req)")
          case (Inl msg)
          from handler_form_error [OF g' True Some Inl] show ?thesis by simp
        next
          case (Inr form)
          from handler_form [OF g' True Some Inr refl refl]
          show ?thesis by (simp split: sum.split)
        qed
      qed
    qed
  qed
qed

text \<open>
  C1 at the service name \<open>constructor\<close>. The name is not in the route table, the
  request is authenticated, and the check is reached; the lookup finds the property
  inherited from \<open>Object.prototype\<close>, which is truthy, so the handler does not answer
  400: it calls \<open>axios.post\<close> with that value as the target, and whatever the exchange
  \<open>tr\<close> gives, the reply has status 200 or 500.
\<close>

theorem inherited_name_not_rejected:
  "map_of serviceMap ''constructor'' = None
   \<and> property serviceMap ''constructor'' = Obj ''constructor''
   \<and> fst (proxy_handler (sample_env\<lparr>transport := tr\<rparr>)
            (sample_request\<lparr>service := ''constructor''\<rparr>)) =
       [VerifyIdToken (Some ''tok''), GetDoc ''uid1'',
        AxiosPost (Obj ''constructor'') (JsonData [(''caption'', Text ''x'')])
          [(''Content-Type'', ''application/json''), (''x-api-key'', ''secret'')]]
   \<and> statusCode (snd (proxy_handler (sample_env\<lparr>transport := tr\<rparr>)
                        (sample_request\<lparr>service := ''constructor''\<rparr>))) \<noteq> 400
   \<and> proxy_handler sample_env (sample_request\<lparr>service := ''constructor''\<rparr>) =
       ([VerifyIdToken (Some ''tok''), GetDoc ''uid1'',
         AxiosPost (Obj ''constructor'') (JsonData [(''caption'', Text ''x'')])
           [(''Content-Type'', ''application/json''), (''x-api-key'', ''secret'')]],
        Json 500 [(''error'', ''Proxy failed''), (''details'', ''Invalid URL'')])"
proof -
  let ?req = "sample_request\<lparr>service := ''constructor''\<rparr>"
  have m: "map_of serviceMap ''constructor'' = None"
    by (simp add: serviceMap_def)
  have p: "property serviceMap ''constructor'' = Obj ''constructor''"
    by (simp add: property_def m Object_prototype_def)
  have g: "getUserApiKey (sample_env\<lparr>transport := tr\<rparr>) ?req =
     ([VerifyIdToken (Some ''tok''), GetDoc ''uid1''], Inr ''secret'')" for tr
    by (simp add: getUserApiKey_def sample_env_def sample_request_def split_def startsWith_def
          index_def)
  have t: "truthy (property serviceMap (service ?req))"
    by (simp add: p)
  have h: "proxy_handler (sample_env\<lparr>transport := tr\<rparr>) ?req =
       ([VerifyIdToken (Some ''tok''), GetDoc ''uid1'',
         AxiosPost (Obj ''constructor'') (JsonData [(''caption'', Text ''x'')])
           [(''Content-Type'', ''application/json''), (''x-api-key'', ''secret'')]],
        case snd (axios_post (sample_env\<lparr>transport := tr\<rparr>) (Obj ''constructor'')
                    (JsonData [(''caption'', Text ''x'')])
                    [(''Content-Type'', ''application/json''), (''x-api-key'', ''secret'')]) of
          Inl msg \<Rightarrow> Json 500 [(''error'', ''Proxy failed''), (''details'', msg)]
        | Inr r \<Rightarrow> Relay (set_Content_Type (sample_env\<lparr>transport := tr\<rparr>) (content_type r))
                    (data r))" for tr
    using handler_json [OF g t _ refl refl]
    by (simp add: p sample_request_def)
  have s: "statusCode (snd (proxy_handler (sample_env\<lparr>transport := tr\<rparr>) ?req)) \<noteq> 400"
    by (simp add: h split: sum.split)
  have e: "sample_env\<lparr>transport := transport sample_env\<rparr> = sample_env"
    by simp
  have "proxy_handler sample_env ?req =
       ([VerifyIdToken (Some ''tok''), GetDoc ''uid1'',
         AxiosPost (Obj ''constructor'') (JsonData [(''caption'', Text ''x'')])
           [(''Content-Type'', ''application/json''), (''x-api-key'', ''secret'')]],
        Json 500 [(''error'', ''Proxy failed''), (''details'', ''Invalid URL'')])"
    using h [of "transport sample_env"]
    by (simp only: e) (simp add: axios_post_def sample_env_def)
  with m p h s show ?thesis by simp
qed

text \<open>
  The token read from the header: a header that starts with \<open>Bearer \<close> passes the
  prefix test, also when nothing follows the prefix, and when the separator does not
  occur again the text after the prefix is what the identity provider is asked to verify.
\<close>

lemma splitFrom_no_separator:
  "sep \<noteq> [] \<Longrightarrow> \<forall>u v. s \<noteq> u @ sep @ v \<Longrightarrow> splitFrom sep cur s = [cur @ s]"
proof (induction s arbitrary: cur)
  case Nil
  then show ?case by simp
next
  case (Cons c cs)
  have "\<not> startsWith (c # cs) sep"
  proof
    assume "startsWith (c # cs) sep"
    then have "c # cs = [] @ sep @ drop (length sep) (c # cs)"
      unfolding startsWith_def by (metis append_Nil append_take_drop_id)
    with Cons.prems(2) show False by blast
  qed
  moreover have "\<forall>u v. cs \<noteq> u @ sep @ v"
  proof (intro allI notI)
    fix u v assume "cs = u @ sep @ v"
    then have "c # cs = (c # u) @ sep @ v" by simp
    with Cons.prems(2) show False by blast
  qed
  ultimately show ?case
    using Cons.IH [OF Cons.prems(1), of "cur @ [c]"] by simp
qed

lemma split_separator_first:
  "sep \<noteq> [] \<Longrightarrow> split (sep @ t) sep = [] # split t sep"
  by (cases sep) (simp_all add: split_def startsWith_def)

lemma token_verbatim:
  assumes "\<forall>u v. t \<noteq> u @ ''Bearer '' @ v"
  shows "index (split (''Bearer '' @ t) ''Bearer '') 1 = Some t"
proof -
  have "split t ''Bearer '' = [t]"
    using splitFrom_no_separator [of "''Bearer ''" t "[]"] assms by (simp add: split_def)
  moreover have "split (''Bearer '' @ t) ''Bearer '' = [] # split t ''Bearer ''"
    by (rule split_separator_first) simp
  ultimately show ?thesis by (simp add: index_def)
qed

lemma bearer_prefix_accepted:
  assumes "authorization req = Some (''Bearer '' @ t)"
  shows "hd (fst (getUserApiKey env req))
           = VerifyIdToken (index (split (''Bearer '' @ t) ''Bearer '') 1)"
  using assms
  by (simp add: getUserApiKey_def startsWith_def Let_def split: sum.split)

lemma empty_token_passes:
  "hd (fst (getUserApiKey env (req\<lparr>authorization := Some ''Bearer ''\<rparr>)))
     = VerifyIdToken (Some '''')"
  by (simp add: getUserApiKey_def split_def startsWith_def index_def Let_def split: sum.split)

text \<open>
  C10 at the header \<open>Bearer aBearer b\<close>. The header passes the prefix test, and the text
  after the first \<open>Bearer \<close> is \<open>aBearer b\<close>; \<open>split\<close> cuts at every occurrence of
  the separator and index 1 is the piece between the first two, so the identity provider
  is asked to verify \<open>a\<close>.
\<close>

theorem token_cut_at_second_separator:
  "startsWith ''Bearer aBearer b'' ''Bearer ''
   \<and> drop (length ''Bearer '') ''Bearer aBearer b'' = ''aBearer b''
   \<and> split ''Bearer aBearer b'' ''Bearer '' = ['''', ''a'', ''b'']
   \<and> hd (fst (getUserApiKey env (req\<lparr>authorization := Some ''Bearer aBearer b''\<rparr>)))
       = VerifyIdToken (Some ''a'')"
  by (simp add: getUserApiKey_def split_def startsWith_def index_def Let_def
        split: sum.split)

end
